theory Spec2Isabelle
  imports Complex_Main
begin

section \<open>Size estimation: the data model\<close>

text \<open>
  The module \<^verbatim>\<open>src/size_estimation/size_predictor.py\<close> works on Python dictionaries
  of body measurements. A measurement value is a Python object; the objects modelled here
  are \<^verbatim>\<open>int\<close>, \<^verbatim>\<open>float\<close>, \<^verbatim>\<open>bool\<close> and \<^verbatim>\<open>None\<close>, the last one
  standing for the values that are not numbers. Strings, lists and other objects are not
  modelled. A Python \<^verbatim>\<open>float\<close> is modelled as an exact real number, so every number
  of the model is finite: rounding, overflow to infinity and NaN are outside the model, and
  so is the \<^verbatim>\<open>OverflowError\<close> of converting an \<^verbatim>\<open>int\<close> beyond the range of a float.
  A product or a quotient is the exact one here, where the code's floats round it to the
  nearest float.
\<close>

datatype pyval = PInt int | PFloat real | PBool bool | PNone

text \<open>
  The exceptions of class \<^verbatim>\<open>Exception\<close>, the ones that \<^verbatim>\<open>except Exception\<close>
  catches. \<open>LibraryError\<close> stands for whatever the classifier or the scaler raises.
\<close>

datatype pyexc = TypeError | KeyError | IndexError | ValueError | LibraryError string

type_synonym measurements = "string \<rightharpoonup> pyval"

text \<open>
  \<^verbatim>\<open>isinstance(value, (int, float))\<close>, with the number the value denotes:
  \<^verbatim>\<open>bool\<close> is a subclass of \<^verbatim>\<open>int\<close>, \<^verbatim>\<open>True\<close> is 1 and \<^verbatim>\<open>False\<close> is 0.
\<close>

fun num_val :: "pyval \<Rightarrow> real option" where
  "num_val (PInt i) = Some (of_int i)"
| "num_val (PFloat x) = Some x"
| "num_val (PBool b) = Some (if b then 1 else 0)"
| "num_val PNone = None"

definition is_number :: "pyval \<Rightarrow> bool" where
  "is_number v = (num_val v \<noteq> None)"

text \<open>\<^verbatim>\<open>value * f\<close> for a float \<open>f\<close>: a float for a number, \<^verbatim>\<open>TypeError\<close> otherwise.\<close>

definition py_mul_float :: "pyval \<Rightarrow> real \<Rightarrow> pyexc + real" where
  "py_mul_float v f = (case num_val v of None \<Rightarrow> Inl TypeError | Some x \<Rightarrow> Inr (x * f))"

text \<open>\<^verbatim>\<open>measurements.get(key, default)\<close>\<close>

definition dict_get :: "measurements \<Rightarrow> string \<Rightarrow> pyval \<Rightarrow> pyval" where
  "dict_get m key dflt = (case m key of None \<Rightarrow> dflt | Some v \<Rightarrow> v)"

definition feature_names :: "string list" where
  "feature_names =
     [''shoulder_width'', ''chest_width'', ''waist_width'', ''hip_width'',
      ''torso_length'', ''arm_length'']"

definition size_mapping :: "int \<rightharpoonup> string" where
  "size_mapping =
     [0 \<mapsto> ''XS'', 1 \<mapsto> ''S'', 2 \<mapsto> ''M'', 3 \<mapsto> ''L'', 4 \<mapsto> ''XL'', 5 \<mapsto> ''XXL'']"

section \<open>normalize\_measurements\<close>

text \<open>
  \<^verbatim>\<open>estimated_height_px = measurements.get('torso_length', 100) * 3.5\<close>; the factor is
  \<^verbatim>\<open>reference_height / (estimated_height_px * 0.1)\<close> when the estimate is positive and
  \<^verbatim>\<open>1.0\<close> otherwise; every number of the dictionary is multiplied by the factor (and is
  a float afterwards), every other value is kept.
\<close>

definition height_factor :: "real \<Rightarrow> real \<Rightarrow> real" where
  "height_factor reference_height estimated_height_px =
     (if estimated_height_px > 0 then reference_height / (estimated_height_px * 0.1) else 1.0)"

definition normalize_value :: "real \<Rightarrow> pyval \<Rightarrow> pyval" where
  "normalize_value factor v =
     (case num_val v of Some x \<Rightarrow> PFloat (x * factor) | None \<Rightarrow> v)"

definition normalize_measurements :: "measurements \<Rightarrow> real \<Rightarrow> pyexc + measurements" where
  "normalize_measurements m reference_height =
     (case py_mul_float (dict_get m ''torso_length'' (PInt 100)) 3.5 of
        Inl e \<Rightarrow> Inl e
      | Inr estimated_height_px \<Rightarrow>
          Inr (\<lambda>key. map_option
                 (normalize_value (height_factor reference_height estimated_height_px))
                 (m key)))"

section \<open>extract\_features\<close>

text \<open>
  A numpy array, as far as the module looks at it: its shape and its elements in row-major
  order.
\<close>

record ndarray =
  shape :: "nat list"
  items :: "pyval list"

text \<open>
  \<^verbatim>\<open>np.array\<close> of a list of the modelled objects gives all elements one common type.
  When every element is a number: \<^verbatim>\<open>float64\<close> if one of them is a float (an
  \<^verbatim>\<open>int\<close> \<open>n\<close> becomes \<open>n.0\<close>, \<^verbatim>\<open>True\<close> becomes 1.0), otherwise \<^verbatim>\<open>int64\<close>
  if one of them is an \<^verbatim>\<open>int\<close> (\<^verbatim>\<open>True\<close> becomes 1), otherwise \<^verbatim>\<open>bool\<close>. When
  an element is \<^verbatim>\<open>None\<close> the array has the type \<^verbatim>\<open>object\<close> and holds the elements
  as they are. An \<^verbatim>\<open>int\<close> outside the range of \<^verbatim>\<open>int64\<close> is outside the model,
  and so are a string among the elements, which turns every element into a string, and a
  list among them, which raises or changes the shape.
\<close>

fun is_float :: "pyval \<Rightarrow> bool" where
  "is_float (PFloat x) = True"
| "is_float v = False"

fun is_int :: "pyval \<Rightarrow> bool" where
  "is_int (PInt i) = True"
| "is_int v = False"

definition to_float64 :: "pyval \<Rightarrow> pyval" where
  "to_float64 v = (case num_val v of Some x \<Rightarrow> PFloat x | None \<Rightarrow> v)"

fun to_int64 :: "pyval \<Rightarrow> pyval" where
  "to_int64 (PBool b) = PInt (if b then 1 else 0)"
| "to_int64 v = v"

definition common_type :: "pyval list \<Rightarrow> pyval list" where
  "common_type xs =
     (if \<not> list_all is_number xs then xs
      else if list_ex is_float xs then map to_float64 xs
      else if list_ex is_int xs then map to_int64 xs
      else xs)"

definition np_array :: "pyval list \<Rightarrow> ndarray" where
  "np_array xs = \<lparr>shape = [length xs], items = common_type xs\<rparr>"

text \<open>\<^verbatim>\<open>a.reshape(1, -1)\<close>: one row holding all the elements.\<close>

definition reshape_row :: "ndarray \<Rightarrow> ndarray" where
  "reshape_row a = \<lparr>shape = [1, length (items a)], items = items a\<rparr>"

text \<open>The body of the loop: the value appended to \<^verbatim>\<open>features\<close> for one feature name.\<close>

definition feature_value :: "measurements \<Rightarrow> string \<Rightarrow> pyexc + pyval" where
  "feature_value m feature_name =
     (case m feature_name of
        Some v \<Rightarrow> Inr v
      | None \<Rightarrow>
          if feature_name = ''chest_width'' then
            (case py_mul_float (dict_get m ''shoulder_width'' (PInt 0)) 1.1 of
               Inl e \<Rightarrow> Inl e | Inr chest \<Rightarrow> Inr (PFloat chest))
          else if feature_name = ''waist_width'' then
            (case py_mul_float (dict_get m ''shoulder_width'' (PInt 0)) 0.75 of
               Inl e \<Rightarrow> Inl e | Inr waist \<Rightarrow> Inr (PFloat waist))
          else Inr (PFloat 0.0))"

text \<open>The loop over the feature names; an exception leaves it at once.\<close>

fun collect_features :: "measurements \<Rightarrow> string list \<Rightarrow> pyval list \<Rightarrow> pyexc + pyval list" where
  "collect_features m [] features = Inr features"
| "collect_features m (feature_name # rest) features =
     (case feature_value m feature_name of
        Inl e \<Rightarrow> Inl e
      | Inr v \<Rightarrow> collect_features m rest (features @ [v]))"

definition extract_features :: "measurements \<Rightarrow> pyexc + ndarray" where
  "extract_features m =
     (case collect_features m feature_names [] of
        Inl e \<Rightarrow> Inl e
      | Inr features \<Rightarrow> Inr (reshape_row (np_array features)))"

section \<open>The estimator and predict\_size\<close>

text \<open>
  The loaded classifier is an object of a library. The module asks it one question,
  \<^verbatim>\<open>hasattr(self.model, 'predict_proba')\<close>, and then calls \<^verbatim>\<open>predict_proba\<close>
  (rows of class probabilities) or \<^verbatim>\<open>predict\<close> (class labels); either call may raise.
  The scaler is an object with a \<^verbatim>\<open>transform\<close> method.
\<close>

datatype classifier =
    ProbaClassifier "ndarray \<Rightarrow> pyexc + real list list"
  | LabelClassifier "ndarray \<Rightarrow> pyexc + int list"

record estimator =
  model :: "classifier option"
  scaler :: "(ndarray \<Rightarrow> pyexc + ndarray) option"

text \<open>The values of a result dictionary, and the records the module writes to its logger.\<close>

datatype rval =
    RStr string
  | RFloat real
  | RList "real list"
  | RNone
  | RMeasurements measurements

type_synonym result = "string \<rightharpoonup> rval"

datatype log_record =
    Warning_no_model
  | Warning_low_confidence real
  | Error_in_prediction pyexc

text \<open>
  \<^verbatim>\<open>_rule_based_prediction\<close>: the first comparison \<^verbatim>\<open>shoulder_width < 35\<close> raises
  \<^verbatim>\<open>TypeError\<close> when the value is not a number.
\<close>

definition rule_size :: "real \<Rightarrow> string" where
  "rule_size shoulder_width =
     (if shoulder_width < 35 then ''XS''
      else if shoulder_width < 40 then ''S''
      else if shoulder_width < 45 then ''M''
      else if shoulder_width < 50 then ''L''
      else if shoulder_width < 55 then ''XL''
      else ''XXL'')"

definition rule_based_prediction :: "measurements \<Rightarrow> pyexc + result" where
  "rule_based_prediction m =
     (case num_val (dict_get m ''shoulder_width'' (PInt 0)) of
        None \<Rightarrow> Inl TypeError
      | Some shoulder_width \<Rightarrow>
          Inr [''predicted_size'' \<mapsto> RStr (rule_size shoulder_width),
               ''confidence'' \<mapsto> RFloat 0.5,
               ''method'' \<mapsto> RStr ''rule_based'',
               ''measurements_used'' \<mapsto> RMeasurements m])"

text \<open>\<^verbatim>\<open>np.argmax\<close>: the index of the first greatest element.\<close>

fun argmax_loop :: "real list \<Rightarrow> nat \<Rightarrow> nat \<Rightarrow> real \<Rightarrow> nat" where
  "argmax_loop [] i best best_value = best"
| "argmax_loop (x # xs) i best best_value =
     (if x > best_value then argmax_loop xs (Suc i) i x
      else argmax_loop xs (Suc i) best best_value)"

definition argmax :: "real list \<Rightarrow> nat" where
  "argmax xs = (case xs of [] \<Rightarrow> 0 | x # rest \<Rightarrow> argmax_loop rest 1 0 x)"

text \<open>
  The inference step of the \<^verbatim>\<open>try\<close> block: the predicted class, the confidence and
  the probabilities (none for a classifier with \<^verbatim>\<open>predict\<close> only). Indexing an empty
  array with \<^verbatim>\<open>[0]\<close> raises \<^verbatim>\<open>IndexError\<close>, \<^verbatim>\<open>np.argmax\<close> of an empty row raises
  \<^verbatim>\<open>ValueError\<close>.
\<close>

definition run_model :: "classifier \<Rightarrow> ndarray \<Rightarrow> pyexc + (int \<times> real \<times> real list option)" where
  "run_model clf features =
     (case clf of
        ProbaClassifier predict_proba \<Rightarrow>
          (case predict_proba features of
             Inl e \<Rightarrow> Inl e
           | Inr [] \<Rightarrow> Inl IndexError
           | Inr (probabilities # _) \<Rightarrow>
               if probabilities = [] then Inl ValueError
               else let predicted_class = argmax probabilities
                    in Inr (int predicted_class, probabilities ! predicted_class,
                            Some probabilities))
      | LabelClassifier predict \<Rightarrow>
          (case predict features of
             Inl e \<Rightarrow> Inl e
           | Inr [] \<Rightarrow> Inl IndexError
           | Inr (predicted_class # _) \<Rightarrow> Inr (predicted_class, 1.0, None)))"

text \<open>\<^verbatim>\<open>if self.scaler: features = self.scaler.transform(features)\<close>\<close>

definition scale_features :: "estimator \<Rightarrow> ndarray \<Rightarrow> pyexc + ndarray" where
  "scale_features est features =
     (case scaler est of None \<Rightarrow> Inr features | Some transform \<Rightarrow> transform features)"

text \<open>
  The \<^verbatim>\<open>try\<close> block of \<^verbatim>\<open>predict_size\<close>: it ends with an exception or with the log
  records written and the result dictionary. \<^verbatim>\<open>self.size_mapping[predicted_class]\<close>
  raises \<^verbatim>\<open>KeyError\<close> for a class that is not one of 0..5.
\<close>

definition model_prediction ::
  "estimator \<Rightarrow> classifier \<Rightarrow> measurements \<Rightarrow> real \<Rightarrow> pyexc + (log_record list \<times> result)" where
  "model_prediction est clf m confidence_threshold =
     (case normalize_measurements m 170.0 of
        Inl e \<Rightarrow> Inl e
      | Inr normalized_measurements \<Rightarrow>
     (case extract_features normalized_measurements of
        Inl e \<Rightarrow> Inl e
      | Inr features \<Rightarrow>
     (case scale_features est features of
        Inl e \<Rightarrow> Inl e
      | Inr scaled \<Rightarrow>
     (case run_model clf scaled of
        Inl e \<Rightarrow> Inl e
      | Inr (predicted_class, confidence, probabilities) \<Rightarrow>
     (case size_mapping predicted_class of
        None \<Rightarrow> Inl KeyError
      | Some predicted_size \<Rightarrow>
          Inr (if confidence < confidence_threshold
               then [Warning_low_confidence confidence] else [],
               [''predicted_size'' \<mapsto> RStr predicted_size,
                ''confidence'' \<mapsto> RFloat confidence,
                ''all_probabilities'' \<mapsto>
                   (case probabilities of Some ps \<Rightarrow> RList ps | None \<Rightarrow> RNone),
                ''measurements_used'' \<mapsto> RMeasurements normalized_measurements]))))))"

text \<open>
  \<^verbatim>\<open>predict_size\<close>: the log records it writes and either the exception the caller sees
  or the result dictionary.
\<close>

definition predict_size ::
  "estimator \<Rightarrow> measurements \<Rightarrow> real \<Rightarrow> log_record list \<times> (pyexc + result)" where
  "predict_size est m confidence_threshold =
     (case model est of
        None \<Rightarrow> ([Warning_no_model], rule_based_prediction m)
      | Some clf \<Rightarrow>
          (case model_prediction est clf m confidence_threshold of
             Inr (logs, res) \<Rightarrow> (logs, Inr res)
           | Inl e \<Rightarrow> ([Error_in_prediction e], rule_based_prediction m)))"

section \<open>Notions the properties are stated with\<close>

text \<open>
  \<^verbatim>\<open>self.reverse_size_mapping = {v: k for k, v in self.size_mapping.items()}\<close>: the
  position of a label in the order XS, S, M, L, XL, XXL.
\<close>

definition reverse_size_mapping :: "string \<rightharpoonup> int" where
  "reverse_size_mapping =
     [''XS'' \<mapsto> 0, ''S'' \<mapsto> 1, ''M'' \<mapsto> 2, ''L'' \<mapsto> 3, ''XL'' \<mapsto> 4, ''XXL'' \<mapsto> 5]"

text \<open>The label under the key \<^verbatim>\<open>predicted_size\<close> of an outcome, when there is one.\<close>

definition predicted_size_of :: "pyexc + result \<Rightarrow> string option" where
  "predicted_size_of out =
     (case out of
        Inl e \<Rightarrow> None
      | Inr r \<Rightarrow> (case r ''predicted_size'' of Some (RStr s) \<Rightarrow> Some s | _ \<Rightarrow> None))"

text \<open>The key \<^verbatim>\<open>shoulder_width\<close> is absent or holds a number.\<close>

definition shoulder_width_ok :: "measurements \<Rightarrow> bool" where
  "shoulder_width_ok m = is_number (dict_get m ''shoulder_width'' (PInt 0))"

text \<open>The call the module makes on the classifier raises the exception \<open>e\<close>.\<close>

definition inference_raises :: "classifier \<Rightarrow> ndarray \<Rightarrow> pyexc \<Rightarrow> bool" where
  "inference_raises clf features e =
     (case clf of
        ProbaClassifier predict_proba \<Rightarrow> predict_proba features = Inl e
      | LabelClassifier predict \<Rightarrow> predict features = Inl e)"

text \<open>
  Python's \<^verbatim>\<open>==\<close> on the modelled values: numbers are equal when they denote the same
  number (\<^verbatim>\<open>5 == 5.0\<close>, \<^verbatim>\<open>True == 1\<close>), \<^verbatim>\<open>None\<close> equals \<^verbatim>\<open>None\<close> only.
\<close>

definition py_eq :: "pyval \<Rightarrow> pyval \<Rightarrow> bool" where
  "py_eq v w =
     (case (num_val v, num_val w) of
        (Some x, Some y) \<Rightarrow> x = y
      | (None, None) \<Rightarrow> True
      | _ \<Rightarrow> False)"

text \<open>Each of the six canonical measurements is absent or holds a number.\<close>

definition canonical_numeric :: "measurements \<Rightarrow> bool" where
  "canonical_numeric m =
     list_all (\<lambda>name. case m name of None \<Rightarrow> True | Some v \<Rightarrow> is_number v) feature_names"

text \<open>
  What is expected of a classifier with \<^verbatim>\<open>predict_proba\<close>: every number it returns is a
  probability.
\<close>

definition gives_probabilities :: "classifier \<Rightarrow> bool" where
  "gives_probabilities clf =
     (case clf of
        ProbaClassifier predict_proba \<Rightarrow>
          (\<forall>features rows. predict_proba features = Inr rows \<longrightarrow>
             (\<forall>row \<in> set rows. \<forall>p \<in> set row. 0 \<le> p \<and> p \<le> 1))
      | LabelClassifier predict \<Rightarrow> True)"

text \<open>
  The call returns from inside the \<^verbatim>\<open>try\<close> block: a classifier is loaded and nothing
  raises there. Otherwise the result, if any, comes from \<^verbatim>\<open>_rule_based_prediction\<close>.
\<close>

definition model_path :: "estimator \<Rightarrow> measurements \<Rightarrow> real \<Rightarrow> bool" where
  "model_path est m confidence_threshold =
     (case model est of
        None \<Rightarrow> False
      | Some clf \<Rightarrow>
          (case model_prediction est clf m confidence_threshold of
             Inl e \<Rightarrow> False
           | Inr out \<Rightarrow> True))"

section \<open>Properties\<close>

subsection \<open>The rule-based prediction\<close>

lemma rule_based_returns:
  "shoulder_width_ok m \<Longrightarrow> \<exists>r. rule_based_prediction m = Inr r"
  by (auto simp: shoulder_width_ok_def is_number_def rule_based_prediction_def)

lemma rule_based_size:
  "num_val (dict_get m ''shoulder_width'' (PInt 0)) = Some x \<Longrightarrow>
   predicted_size_of (rule_based_prediction m) = Some (rule_size x)"
  by (simp add: rule_based_prediction_def predicted_size_of_def)

lemma rule_size_mono:
  "a \<le> b \<Longrightarrow> \<exists>i j. reverse_size_mapping (rule_size a) = Some i \<and>
      reverse_size_mapping (rule_size b) = Some j \<and> i \<le> j"
  by (simp add: rule_size_def reverse_size_mapping_def)

lemma rule_size_thresholds:
  "(rule_size a = ''XS'') = (a < 35) \<and>
   (rule_size a = ''S'') = (35 \<le> a \<and> a < 40) \<and>
   (rule_size a = ''M'') = (40 \<le> a \<and> a < 45) \<and>
   (rule_size a = ''L'') = (45 \<le> a \<and> a < 50) \<and>
   (rule_size a = ''XL'') = (50 \<le> a \<and> a < 55) \<and>
   (rule_size a = ''XXL'') = (55 \<le> a)"
  by (simp add: rule_size_def)

text \<open>
  C6. The label of the rule-based prediction is a function of the number under
  \<^verbatim>\<open>shoulder_width\<close> alone (0 when the key is absent), and the thresholds 35, 40, 45,
  50 and 55 delimit the six labels: XS below 35, S from 35 and below 40, M from 40 and
  below 45, L from 45 and below 50, XL from 50 and below 55, XXL from 55. Two dictionaries
  with the same shoulder width get the same label whatever else they hold, and a greater
  shoulder width never gets a label that comes earlier in XS, S, M, L, XL, XXL. The widths
  34, 39, 44, 49, 54 and 60 give XS, S, M, L, XL and XXL.
\<close>

theorem rule_based_monotone:
  assumes "num_val (dict_get m1 ''shoulder_width'' (PInt 0)) = Some a"
    and "num_val (dict_get m2 ''shoulder_width'' (PInt 0)) = Some b"
  shows "(\<exists>s. predicted_size_of (rule_based_prediction m1) = Some s \<and>
            (s = ''XS'') = (a < 35) \<and>
            (s = ''S'') = (35 \<le> a \<and> a < 40) \<and>
            (s = ''M'') = (40 \<le> a \<and> a < 45) \<and>
            (s = ''L'') = (45 \<le> a \<and> a < 50) \<and>
            (s = ''XL'') = (50 \<le> a \<and> a < 55) \<and>
            (s = ''XXL'') = (55 \<le> a)) \<and>
         (a \<le> b \<longrightarrow>
          (\<exists>s1 s2 i j. predicted_size_of (rule_based_prediction m1) = Some s1 \<and>
             predicted_size_of (rule_based_prediction m2) = Some s2 \<and>
             reverse_size_mapping s1 = Some i \<and> reverse_size_mapping s2 = Some j \<and> i \<le> j)) \<and>
         (a = b \<longrightarrow>
            predicted_size_of (rule_based_prediction m1) =
            predicted_size_of (rule_based_prediction m2)) \<and>
         predicted_size_of (rule_based_prediction (m(''shoulder_width'' \<mapsto> PInt 34))) = Some ''XS'' \<and>
         predicted_size_of (rule_based_prediction (m(''shoulder_width'' \<mapsto> PInt 39))) = Some ''S'' \<and>
         predicted_size_of (rule_based_prediction (m(''shoulder_width'' \<mapsto> PInt 44))) = Some ''M'' \<and>
         predicted_size_of (rule_based_prediction (m(''shoulder_width'' \<mapsto> PInt 49))) = Some ''L'' \<and>
         predicted_size_of (rule_based_prediction (m(''shoulder_width'' \<mapsto> PInt 54))) = Some ''XL'' \<and>
         predicted_size_of (rule_based_prediction (m(''shoulder_width'' \<mapsto> PInt 60))) = Some ''XXL''"
proof -
  have s1: "predicted_size_of (rule_based_prediction m1) = Some (rule_size a)"
    using assms(1) by (rule rule_based_size)
  have s2: "predicted_size_of (rule_based_prediction m2) = Some (rule_size b)"
    using assms(2) by (rule rule_based_size)
  have thresholds: "\<exists>s. predicted_size_of (rule_based_prediction m1) = Some s \<and>
            (s = ''XS'') = (a < 35) \<and>
            (s = ''S'') = (35 \<le> a \<and> a < 40) \<and>
            (s = ''M'') = (40 \<le> a \<and> a < 45) \<and>
            (s = ''L'') = (45 \<le> a \<and> a < 50) \<and>
            (s = ''XL'') = (50 \<le> a \<and> a < 55) \<and>
            (s = ''XXL'') = (55 \<le> a)"
    using s1 rule_size_thresholds [of a] by blast
  have mono: "a \<le> b \<longrightarrow>
          (\<exists>s1 s2 i j. predicted_size_of (rule_based_prediction m1) = Some s1 \<and>
             predicted_size_of (rule_based_prediction m2) = Some s2 \<and>
             reverse_size_mapping s1 = Some i \<and> reverse_size_mapping s2 = Some j \<and> i \<le> j)"
    using rule_size_mono [of a b] by (simp add: s1 s2)
  have same: "a = b \<longrightarrow> predicted_size_of (rule_based_prediction m1) =
            predicted_size_of (rule_based_prediction m2)"
    by (simp add: s1 s2)
  have at: "predicted_size_of (rule_based_prediction (m(''shoulder_width'' \<mapsto> PInt k)))
        = Some (rule_size (of_int k))" for k
    by (rule rule_based_size) (simp add: dict_get_def)
  have points:
    "predicted_size_of (rule_based_prediction (m(''shoulder_width'' \<mapsto> PInt 34))) = Some ''XS'' \<and>
     predicted_size_of (rule_based_prediction (m(''shoulder_width'' \<mapsto> PInt 39))) = Some ''S'' \<and>
     predicted_size_of (rule_based_prediction (m(''shoulder_width'' \<mapsto> PInt 44))) = Some ''M'' \<and>
     predicted_size_of (rule_based_prediction (m(''shoulder_width'' \<mapsto> PInt 49))) = Some ''L'' \<and>
     predicted_size_of (rule_based_prediction (m(''shoulder_width'' \<mapsto> PInt 54))) = Some ''XL'' \<and>
     predicted_size_of (rule_based_prediction (m(''shoulder_width'' \<mapsto> PInt 60))) = Some ''XXL''"
    by (simp add: at rule_size_def)
  show ?thesis
    using thresholds mono same points by blast
qed

theorem rule_based_monotone_witness:
  "num_val (dict_get [''shoulder_width'' \<mapsto> PInt 38] ''shoulder_width'' (PInt 0)) = Some 38 \<and>
   num_val (dict_get [''shoulder_width'' \<mapsto> PFloat 47.5] ''shoulder_width'' (PInt 0)) = Some 47.5 \<and>
   num_val (dict_get [''shoulder_width'' \<mapsto> PFloat 38, ''hip_width'' \<mapsto> PInt 90]
              ''shoulder_width'' (PInt 0)) = Some 38 \<and>
   (38::real) \<le> 47.5 \<and> (35::real) \<le> 38 \<and> (38::real) < 40 \<and>
   predicted_size_of (rule_based_prediction [''shoulder_width'' \<mapsto> PInt 38]) = Some ''S'' \<and>
   predicted_size_of (rule_based_prediction [''shoulder_width'' \<mapsto> PFloat 47.5]) = Some ''L'' \<and>
   predicted_size_of (rule_based_prediction
      [''shoulder_width'' \<mapsto> PFloat 38, ''hip_width'' \<mapsto> PInt 90]) = Some ''S'' \<and>
   reverse_size_mapping ''S'' = Some 1 \<and> reverse_size_mapping ''L'' = Some 3"
proof -
  have h1: "num_val (dict_get [''shoulder_width'' \<mapsto> PInt 38] ''shoulder_width'' (PInt 0))
              = Some 38"
    by (simp add: dict_get_def)
  have h2: "num_val (dict_get [''shoulder_width'' \<mapsto> PFloat 47.5] ''shoulder_width'' (PInt 0))
              = Some 47.5"
    by (simp add: dict_get_def)
  have h3: "num_val (dict_get [''shoulder_width'' \<mapsto> PFloat 38, ''hip_width'' \<mapsto> PInt 90]
              ''shoulder_width'' (PInt 0)) = Some 38"
    by (simp add: dict_get_def)
  have s: "predicted_size_of (rule_based_prediction [''shoulder_width'' \<mapsto> PInt 38]) = Some ''S''"
    using rule_based_monotone [OF h1 h2] by auto
  have l: "predicted_size_of (rule_based_prediction [''shoulder_width'' \<mapsto> PFloat 47.5]) = Some ''L''"
    by (simp add: rule_based_prediction_def predicted_size_of_def dict_get_def rule_size_def)
  have s': "predicted_size_of (rule_based_prediction
      [''shoulder_width'' \<mapsto> PFloat 38, ''hip_width'' \<mapsto> PInt 90]) = Some ''S''"
    using rule_based_monotone [OF h1 h3] s by simp
  show ?thesis
    using h1 h2 h3 s l s' by (simp add: reverse_size_mapping_def)
qed

subsection \<open>predict\_size without a model\<close>

text \<open>
  C5, as stated, fails: with no model loaded and a \<^verbatim>\<open>shoulder_width\<close> that is not a
  number, the comparison \<^verbatim>\<open>shoulder_width < 35\<close> raises \<^verbatim>\<open>TypeError\<close> and
  \<^verbatim>\<open>predict_size\<close> returns no result.
\<close>

theorem no_model_counterexample:
  "predict_size \<lparr>model = None, scaler = None\<rparr> [''shoulder_width'' \<mapsto> PNone] 0.7
     = ([Warning_no_model], Inl TypeError)"
  by (simp add: predict_size_def rule_based_prediction_def dict_get_def)

text \<open>
  C5, amended. For every measurement dictionary whose \<^verbatim>\<open>shoulder_width\<close> is absent
  or a number and for every confidence threshold, when no classifier is loaded
  \<^verbatim>\<open>predict_size\<close> returns a result whose \<^verbatim>\<open>method\<close> is \<^verbatim>\<open>"rule_based"\<close> and whose
  \<^verbatim>\<open>confidence\<close> is exactly 0.5.
\<close>

theorem no_model_rule_based:
  assumes "model est = None" and "shoulder_width_ok m"
  shows "\<exists>r. predict_size est m confidence_threshold = ([Warning_no_model], Inr r) \<and>
             r ''method'' = Some (RStr ''rule_based'') \<and>
             r ''confidence'' = Some (RFloat 0.5)"
  using assms
  by (auto simp: predict_size_def rule_based_prediction_def shoulder_width_ok_def is_number_def)

theorem no_model_rule_based_witness:
  "model \<lparr>model = None, scaler = None\<rparr> = None \<and>
   shoulder_width_ok [''shoulder_width'' \<mapsto> PInt 42] \<and>
   (\<exists>r. predict_size \<lparr>model = None, scaler = None\<rparr> [''shoulder_width'' \<mapsto> PInt 42] 0.7
           = ([Warning_no_model], Inr r) \<and>
        r ''method'' = Some (RStr ''rule_based'') \<and>
        r ''confidence'' = Some (RFloat 0.5))"
proof -
  have h1: "model \<lparr>model = None, scaler = None\<rparr> = None" by simp
  have h2: "shoulder_width_ok [''shoulder_width'' \<mapsto> PInt 42]"
    by (simp add: shoulder_width_ok_def is_number_def dict_get_def)
  show ?thesis
    using h1 h2 no_model_rule_based [OF h1 h2, of "0.7"] by simp
qed

subsection \<open>The confidence threshold\<close>

text \<open>
  C9. What \<^verbatim>\<open>predict_size\<close> hands to its caller (the result dictionary, or the
  exception) is the same for any two confidence thresholds, for every estimator and every
  measurement dictionary: the threshold only decides whether a low-confidence warning is
  logged.
\<close>

theorem threshold_independent:
  "snd (predict_size est m t1) = snd (predict_size est m t2)"
  by (simp add: predict_size_def model_prediction_def
      split: option.splits sum.splits prod.splits)

text \<open>The threshold does reach the log: 0.6 is reported under 0.7 and not under 0.5.\<close>

lemma threshold_only_logged:
  "fst (predict_size \<lparr>model = Some (ProbaClassifier (\<lambda>a. Inr [[0.2, 0.6, 0.2]])), scaler = None\<rparr>
          Map.empty 0.7) = [Warning_low_confidence 0.6] \<and>
   fst (predict_size \<lparr>model = Some (ProbaClassifier (\<lambda>a. Inr [[0.2, 0.6, 0.2]])), scaler = None\<rparr>
          Map.empty 0.5) = []"
  by (simp add: predict_size_def model_prediction_def normalize_measurements_def
      py_mul_float_def dict_get_def extract_features_def feature_names_def feature_value_def
      scale_features_def run_model_def argmax_def size_mapping_def)

subsection \<open>The fallback of predict\_size\<close>

lemma run_model_raises:
  "inference_raises clf features e \<Longrightarrow> run_model clf features = Inl e"
  by (cases clf) (simp_all add: inference_raises_def run_model_def)

text \<open>
  C1, as stated, fails: with a \<^verbatim>\<open>shoulder_width\<close> that is not a number and a classifier
  whose \<^verbatim>\<open>predict\<close> raises, the \<^verbatim>\<open>except\<close> branch runs the rule-based prediction,
  whose comparison \<^verbatim>\<open>shoulder_width < 35\<close> raises \<^verbatim>\<open>TypeError\<close> inside the handler: the
  caller of \<^verbatim>\<open>predict_size\<close> sees that exception.
\<close>

theorem fallback_counterexample:
  "predict_size \<lparr>model = Some (LabelClassifier (\<lambda>a. Inl (LibraryError ''predict failed''))),
                 scaler = None\<rparr>
     [''shoulder_width'' \<mapsto> PNone, ''chest_width'' \<mapsto> PInt 40, ''waist_width'' \<mapsto> PInt 30] 0.7
   = ([Error_in_prediction (LibraryError ''predict failed'')], Inl TypeError)"
  by (simp add: predict_size_def model_prediction_def normalize_measurements_def
      py_mul_float_def dict_get_def extract_features_def feature_names_def feature_value_def
      scale_features_def run_model_def rule_based_prediction_def)

text \<open>
  C1, amended. For every measurement dictionary whose \<^verbatim>\<open>shoulder_width\<close> is absent or
  a number: \<^verbatim>\<open>predict_size\<close> never hands an exception to its caller, whatever the
  estimator holds; and if a classifier is loaded and its inference (\<^verbatim>\<open>predict\<close> or
  \<^verbatim>\<open>predict_proba\<close>) raises, \<^verbatim>\<open>predict_size\<close> logs the error and returns the
  rule-based prediction for the same measurements.
\<close>

theorem inference_error_falls_back:
  assumes "shoulder_width_ok m"
  shows "(\<exists>r. snd (predict_size est m confidence_threshold) = Inr r) \<and>
         (model est = Some clf \<and>
          normalize_measurements m 170 = Inr normalized \<and>
          extract_features normalized = Inr features \<and>
          scale_features est features = Inr scaled \<and>
          inference_raises clf scaled e \<longrightarrow>
            predict_size est m confidence_threshold
              = ([Error_in_prediction e], rule_based_prediction m))"
proof -
  obtain r where r: "rule_based_prediction m = Inr r"
    using assms rule_based_returns by blast
  have "\<exists>r. snd (predict_size est m confidence_threshold) = Inr r"
    by (simp add: predict_size_def r split: option.splits sum.splits prod.splits)
  moreover have "predict_size est m confidence_threshold
              = ([Error_in_prediction e], rule_based_prediction m)"
    if "model est = Some clf" "normalize_measurements m 170 = Inr normalized"
       "extract_features normalized = Inr features" "scale_features est features = Inr scaled"
       "inference_raises clf scaled e"
    using that by (simp add: predict_size_def model_prediction_def run_model_raises)
  ultimately show ?thesis by blast
qed

lemma normalize_42:
  "normalize_measurements [''shoulder_width'' \<mapsto> PInt 42] 170
     = Inr [''shoulder_width'' \<mapsto> PFloat 204]"
  by (simp add: normalize_measurements_def dict_get_def py_mul_float_def height_factor_def
      normalize_value_def fun_eq_iff)

lemma extract_204:
  "extract_features [''shoulder_width'' \<mapsto> PFloat 204]
     = Inr \<lparr>shape = [1, 6],
            items = [PFloat 204, PFloat 224.4, PFloat 153, PFloat 0, PFloat 0, PFloat 0]\<rparr>"
  by (simp add: extract_features_def feature_names_def feature_value_def dict_get_def
      py_mul_float_def np_array_def reshape_row_def common_type_def is_number_def
      to_float64_def)

theorem inference_error_falls_back_witness:
  "shoulder_width_ok [''shoulder_width'' \<mapsto> PInt 42] \<and>
   model \<lparr>model = Some (LabelClassifier (\<lambda>a. Inl (LibraryError ''predict failed''))),
          scaler = None\<rparr>
     = Some (LabelClassifier (\<lambda>a. Inl (LibraryError ''predict failed''))) \<and>
   normalize_measurements [''shoulder_width'' \<mapsto> PInt 42] 170
     = Inr [''shoulder_width'' \<mapsto> PFloat 204] \<and>
   extract_features [''shoulder_width'' \<mapsto> PFloat 204]
     = Inr \<lparr>shape = [1, 6],
            items = [PFloat 204, PFloat 224.4, PFloat 153, PFloat 0, PFloat 0, PFloat 0]\<rparr> \<and>
   scale_features
     \<lparr>model = Some (LabelClassifier (\<lambda>a. Inl (LibraryError ''predict failed''))),
      scaler = None\<rparr>
     \<lparr>shape = [1, 6],
      items = [PFloat 204, PFloat 224.4, PFloat 153, PFloat 0, PFloat 0, PFloat 0]\<rparr>
     = Inr \<lparr>shape = [1, 6],
            items = [PFloat 204, PFloat 224.4, PFloat 153, PFloat 0, PFloat 0, PFloat 0]\<rparr> \<and>
   inference_raises (LabelClassifier (\<lambda>a. Inl (LibraryError ''predict failed'')))
     \<lparr>shape = [1, 6],
      items = [PFloat 204, PFloat 224.4, PFloat 153, PFloat 0, PFloat 0, PFloat 0]\<rparr>
     (LibraryError ''predict failed'') \<and>
   predict_size
     \<lparr>model = Some (LabelClassifier (\<lambda>a. Inl (LibraryError ''predict failed''))),
      scaler = None\<rparr>
     [''shoulder_width'' \<mapsto> PInt 42] 0.7
   = ([Error_in_prediction (LibraryError ''predict failed'')],
      Inr [''predicted_size'' \<mapsto> RStr ''M'', ''confidence'' \<mapsto> RFloat 0.5,
           ''method'' \<mapsto> RStr ''rule_based'',
           ''measurements_used'' \<mapsto> RMeasurements [''shoulder_width'' \<mapsto> PInt 42]])"
proof -
  let ?clf = "LabelClassifier (\<lambda>a. Inl (LibraryError ''predict failed''))"
  let ?est = "\<lparr>model = Some ?clf, scaler = None\<rparr>"
  let ?m = "[''shoulder_width'' \<mapsto> PInt 42]"
  let ?f = "\<lparr>shape = [1, 6],
      items = [PFloat 204, PFloat 224.4, PFloat 153, PFloat 0, PFloat 0, PFloat 0]\<rparr>"
  have h0: "shoulder_width_ok ?m"
    by (simp add: shoulder_width_ok_def is_number_def dict_get_def)
  have h1: "model ?est = Some ?clf" by simp
  have h4: "scale_features ?est ?f = Inr ?f" by (simp add: scale_features_def)
  have h5: "inference_raises ?clf ?f (LibraryError ''predict failed'')"
    by (simp add: inference_raises_def)
  have rb: "rule_based_prediction ?m
      = Inr [''predicted_size'' \<mapsto> RStr ''M'', ''confidence'' \<mapsto> RFloat 0.5,
           ''method'' \<mapsto> RStr ''rule_based'',
           ''measurements_used'' \<mapsto> RMeasurements ?m]"
    by (simp add: rule_based_prediction_def dict_get_def rule_size_def)
  from inference_error_falls_back [OF h0, of ?est "0.7" ?clf "[''shoulder_width'' \<mapsto> PFloat 204]"
      ?f ?f "LibraryError ''predict failed''"]
  have "predict_size ?est ?m 0.7
     = ([Error_in_prediction (LibraryError ''predict failed'')], rule_based_prediction ?m)"
    using h1 normalize_42 extract_204 h4 h5 by blast
  then show ?thesis
    using h0 h1 normalize_42 extract_204 h4 h5 rb by simp
qed

subsection \<open>Normalisation\<close>

text \<open>
  C2, as stated, fails: when \<^verbatim>\<open>torso_length\<close> is absent the default of
  \<^verbatim>\<open>measurements.get('torso_length', 100)\<close> is used, the estimated height is 350 and
  the factor is \<^verbatim>\<open>reference_height / 35\<close>, not 1.0. A shoulder width of 35 comes back
  as 170.
\<close>

theorem normalize_absent_torso_counterexample:
  "normalize_measurements [''shoulder_width'' \<mapsto> PFloat 35] 170
     = Inr [''shoulder_width'' \<mapsto> PFloat 170] \<and>
   \<not> py_eq (PFloat 35) (PFloat 170)"
  by (simp add: normalize_measurements_def dict_get_def py_mul_float_def height_factor_def
      normalize_value_def fun_eq_iff py_eq_def)

lemma normalize_value_one: "py_eq v (normalize_value 1 v)"
  by (cases v) (simp_all add: normalize_value_def py_eq_def)

lemma normalize_with_torso:
  "m ''torso_length'' = Some v \<Longrightarrow> num_val v = Some t \<Longrightarrow>
   normalize_measurements m reference_height =
     Inr (\<lambda>key. map_option (normalize_value (height_factor reference_height (t * 3.5))) (m key))"
  by (simp add: normalize_measurements_def dict_get_def py_mul_float_def)

lemma normalize_without_torso:
  "m ''torso_length'' = None \<Longrightarrow>
   normalize_measurements m reference_height =
     Inr (\<lambda>key. map_option (normalize_value (reference_height / 35)) (m key))"
  by (simp add: normalize_measurements_def dict_get_def py_mul_float_def height_factor_def)

lemma normalize_nonpositive_torso:
  assumes "m ''torso_length'' = Some v" and "num_val v = Some t" and "t \<le> 0"
  shows "\<exists>normalized. normalize_measurements m reference_height = Inr normalized \<and>
           (\<forall>key. rel_option py_eq (m key) (normalized key))"
proof -
  have "height_factor reference_height (t * 3.5) = 1"
    using assms(3) by (simp add: height_factor_def mult_le_0_iff)
  then have "normalize_measurements m reference_height =
      Inr (\<lambda>key. map_option (normalize_value 1) (m key))"
    using normalize_with_torso [of m v t reference_height] assms(1,2) by simp
  moreover have "rel_option py_eq (m key) (map_option (normalize_value 1) (m key))" for key
    by (cases "m key") (simp_all add: normalize_value_one)
  ultimately show ?thesis by simp
qed

text \<open>
  C2, amended. \<^verbatim>\<open>normalize_measurements\<close> estimates the pixel height as
  \<^verbatim>\<open>torso_length\<close> times 3.5 when \<^verbatim>\<open>torso_length\<close> is present (and a number); when
  \<^verbatim>\<open>torso_length\<close> is absent it takes 100 in its place, so that the factor is the
  reference height divided by 35; when \<^verbatim>\<open>torso_length\<close> is present and not positive
  the factor is 1.0 and every value comes back unchanged (a number as the float equal to
  it), in particular for \<^verbatim>\<open>torso_length = 0\<close>; an empty dictionary comes back empty,
  without an exception.
\<close>

theorem normalize_scaling:
  "(m ''torso_length'' = Some v \<and> num_val v = Some t \<longrightarrow>
      normalize_measurements m reference_height =
        Inr (\<lambda>key. map_option
               (normalize_value (height_factor reference_height (t * 3.5))) (m key))) \<and>
   (m ''torso_length'' = None \<longrightarrow>
      normalize_measurements m reference_height =
        Inr (\<lambda>key. map_option (normalize_value (reference_height / 35)) (m key))) \<and>
   (m ''torso_length'' = Some v \<and> num_val v = Some t \<and> t \<le> 0 \<longrightarrow>
      height_factor reference_height (t * 3.5) = 1 \<and>
      (\<exists>normalized. normalize_measurements m reference_height = Inr normalized \<and>
         (\<forall>key. rel_option py_eq (m key) (normalized key)))) \<and>
   normalize_measurements Map.empty reference_height = Inr Map.empty"
proof -
  have "height_factor reference_height (t * 3.5) = 1" if "t \<le> 0"
    using that by (simp add: height_factor_def mult_le_0_iff)
  moreover have "normalize_measurements Map.empty reference_height = Inr Map.empty"
    by (simp add: normalize_without_torso)
  ultimately show ?thesis
    using normalize_with_torso [of m v t reference_height]
      normalize_without_torso [of m reference_height]
      normalize_nonpositive_torso [of m v t reference_height]
    by blast
qed

theorem normalize_scaling_witness:
  "[''torso_length'' \<mapsto> PInt 0, ''shoulder_width'' \<mapsto> PInt 42, ''label'' \<mapsto> PNone]
      ''torso_length'' = Some (PInt 0) \<and>
   num_val (PInt 0) = Some 0 \<and> (0::real) \<le> 0 \<and>
   normalize_measurements
      [''torso_length'' \<mapsto> PInt 0, ''shoulder_width'' \<mapsto> PInt 42, ''label'' \<mapsto> PNone] 170
     = Inr [''torso_length'' \<mapsto> PFloat 0, ''shoulder_width'' \<mapsto> PFloat 42, ''label'' \<mapsto> PNone] \<and>
   height_factor 170 (0 * 3.5) = 1 \<and>
   [''shoulder_width'' \<mapsto> PInt 70] ''torso_length'' = None \<and>
   normalize_measurements [''shoulder_width'' \<mapsto> PInt 70] 170
     = Inr [''shoulder_width'' \<mapsto> PFloat 340]"
proof -
  let ?m = "[''torso_length'' \<mapsto> PInt 0, ''shoulder_width'' \<mapsto> PInt 42, ''label'' \<mapsto> PNone]"
  have h1: "?m ''torso_length'' = Some (PInt 0)" by simp
  have h2: "num_val (PInt 0) = Some 0" by simp
  have h3: "[''shoulder_width'' \<mapsto> PInt 70] ''torso_length'' = None" by simp
  have a: "normalize_measurements ?m 170 =
        Inr (\<lambda>key. map_option (normalize_value (height_factor 170 (0 * 3.5))) (?m key))"
    using normalize_scaling [of ?m "PInt 0" 0 170] h1 h2 by blast
  have b: "normalize_measurements [''shoulder_width'' \<mapsto> PInt 70] 170 =
        Inr (\<lambda>key. map_option (normalize_value (170 / 35)) ([''shoulder_width'' \<mapsto> PInt 70] key))"
    using normalize_scaling [of "[''shoulder_width'' \<mapsto> PInt 70]" "PInt 0" 0 170] h3 by blast
  have c: "height_factor 170 (0 * 3.5) = 1"
    using normalize_scaling [of ?m "PInt 0" 0 170] h1 h2 by simp
  show ?thesis
    unfolding a b
    by (simp add: height_factor_def normalize_value_def fun_eq_iff)
qed

subsection \<open>The feature vector\<close>


lemma length_common_type: "length (common_type xs) = length xs"
  by (simp add: common_type_def)

lemma py_eq_same: "py_eq v v"
  by (cases v) (simp_all add: py_eq_def)

lemma py_eq_to_float64: "py_eq (to_float64 v) v"
  by (cases v) (simp_all add: to_float64_def py_eq_def)

lemma py_eq_to_int64: "py_eq (to_int64 v) v"
  by (cases v) (simp_all add: py_eq_def)

lemma common_type_py_eq: "list_all2 py_eq (common_type xs) xs"
  by (simp add: common_type_def list_all2_map1 list_all2_same py_eq_same py_eq_to_float64
      py_eq_to_int64)















text \<open>
  C7, as stated, fails: when \<^verbatim>\<open>chest_width\<close> or \<^verbatim>\<open>waist_width\<close> is absent and
  \<^verbatim>\<open>shoulder_width\<close> holds a value that is not a number, the product
  \<^verbatim>\<open>measurements.get('shoulder_width', 0) * 1.1\<close> raises \<^verbatim>\<open>TypeError\<close> and
  \<^verbatim>\<open>extract_features\<close> returns no array at all.
\<close>

theorem extract_features_imputes_counterexample:
  "extract_features [''shoulder_width'' \<mapsto> PNone] = Inl TypeError"
  by (simp add: extract_features_def feature_names_def feature_value_def dict_get_def
      py_mul_float_def)

text \<open>
  C7, amended. For every measurement dictionary in which each of the 6 canonical
  measurements is absent or a number, with \<open>s\<close> the number under \<^verbatim>\<open>shoulder_width\<close>
  (0 when it is absent): \<^verbatim>\<open>extract_features\<close> returns an array of shape 1 by 6 whose
  entries equal, in the order of the feature names, the value of the key when it is present
  and otherwise \<open>1.1 * s\<close> for \<^verbatim>\<open>chest_width\<close>, \<open>0.75 * s\<close> for \<^verbatim>\<open>waist_width\<close>
  and 0.0 for every other feature, however many keys are present. (The entries have the
  common element type of the array; equality is that of Python's \<^verbatim>\<open>==\<close>.)
\<close>

theorem extract_features_imputes:
  assumes "canonical_numeric m"
    and "num_val (dict_get m ''shoulder_width'' (PInt 0)) = Some s"
  shows "\<exists>a. extract_features m = Inr a \<and> shape a = [1, 6] \<and>
           list_all2 py_eq (items a)
             [dict_get m ''shoulder_width'' (PFloat 0.0),
              dict_get m ''chest_width'' (PFloat (s * 1.1)),
              dict_get m ''waist_width'' (PFloat (s * 0.75)),
              dict_get m ''hip_width'' (PFloat 0.0),
              dict_get m ''torso_length'' (PFloat 0.0),
              dict_get m ''arm_length'' (PFloat 0.0)]"
proof -
  let ?vs = "[dict_get m ''shoulder_width'' (PFloat 0.0),
              dict_get m ''chest_width'' (PFloat (s * 1.1)),
              dict_get m ''waist_width'' (PFloat (s * 0.75)),
              dict_get m ''hip_width'' (PFloat 0.0),
              dict_get m ''torso_length'' (PFloat 0.0),
              dict_get m ''arm_length'' (PFloat 0.0)]"
  have chest: "feature_value m ''chest_width'' = Inr (dict_get m ''chest_width'' (PFloat (s * 1.1)))"
    using assms(2)
    by (simp add: feature_value_def py_mul_float_def dict_get_def split: option.splits)
  have waist: "feature_value m ''waist_width'' = Inr (dict_get m ''waist_width'' (PFloat (s * 0.75)))"
    using assms(2)
    by (simp add: feature_value_def py_mul_float_def dict_get_def split: option.splits)
  have other: "feature_value m name = Inr (dict_get m name (PFloat 0.0))"
    if "name \<noteq> ''chest_width''" "name \<noteq> ''waist_width''" for name
    using that by (simp add: feature_value_def dict_get_def split: option.splits)
  have "collect_features m feature_names [] = Inr ?vs"
    by (simp add: feature_names_def chest waist other)
  then have "extract_features m = Inr \<lparr>shape = [1, 6], items = common_type ?vs\<rparr>"
    by (simp add: extract_features_def np_array_def reshape_row_def length_common_type)
  moreover have "list_all2 py_eq (common_type ?vs) ?vs"
    by (rule common_type_py_eq)
  ultimately show ?thesis by simp
qed

theorem extract_features_imputes_witness:
  "canonical_numeric [''shoulder_width'' \<mapsto> PInt 40, ''hip_width'' \<mapsto> PFloat 41.5] \<and>
   num_val (dict_get [''shoulder_width'' \<mapsto> PInt 40, ''hip_width'' \<mapsto> PFloat 41.5]
              ''shoulder_width'' (PInt 0)) = Some 40 \<and>
   extract_features [''shoulder_width'' \<mapsto> PInt 40, ''hip_width'' \<mapsto> PFloat 41.5]
     = Inr \<lparr>shape = [1, 6],
            items = [PFloat 40, PFloat 44, PFloat 30, PFloat 41.5, PFloat 0, PFloat 0]\<rparr> \<and>
   list_all2 py_eq [PFloat 40, PFloat 44, PFloat 30, PFloat 41.5, PFloat 0, PFloat 0]
     [PInt 40, PFloat 44, PFloat 30, PFloat 41.5, PFloat 0, PFloat 0]"
proof -
  let ?m = "[''shoulder_width'' \<mapsto> PInt 40, ''hip_width'' \<mapsto> PFloat 41.5]"
  let ?a = "\<lparr>shape = [1, 6],
            items = [PFloat 40, PFloat 44, PFloat 30, PFloat 41.5, PFloat 0, PFloat 0]\<rparr>"
  have h: "canonical_numeric ?m"
    by (simp add: canonical_numeric_def feature_names_def is_number_def)
  have h2: "num_val (dict_get ?m ''shoulder_width'' (PInt 0)) = Some 40"
    by (simp add: dict_get_def)
  have e: "extract_features ?m = Inr ?a"
    by (simp add: extract_features_def feature_names_def feature_value_def
      dict_get_def py_mul_float_def np_array_def reshape_row_def common_type_def is_number_def
      to_float64_def)
  obtain a where a: "extract_features ?m = Inr a"
    "list_all2 py_eq (items a)
             [dict_get ?m ''shoulder_width'' (PFloat 0.0),
              dict_get ?m ''chest_width'' (PFloat (40 * 1.1)),
              dict_get ?m ''waist_width'' (PFloat (40 * 0.75)),
              dict_get ?m ''hip_width'' (PFloat 0.0),
              dict_get ?m ''torso_length'' (PFloat 0.0),
              dict_get ?m ''arm_length'' (PFloat 0.0)]"
    using extract_features_imputes [OF h h2] by blast
  have a_def: "a = ?a" using a(1) e by simp
  have "list_all2 py_eq [PFloat 40, PFloat 44, PFloat 30, PFloat 41.5, PFloat 0, PFloat 0]
     [PInt 40, PFloat 44, PFloat 30, PFloat 41.5, PFloat 0, PFloat 0]"
    using a(2) unfolding a_def by (simp add: dict_get_def)
  then show ?thesis using h h2 e by simp
qed

subsection \<open>The model path of predict\_size\<close>

text \<open>\<^verbatim>\<open>np.argmax\<close> returns the first position of the greatest element.\<close>

lemma argmax_loop_inv:
  assumes "length ys = i" and "best < i" and "ys ! best = bv"
    and "\<forall>j<i. ys ! j \<le> bv" and "\<forall>j<best. ys ! j < bv"
  shows "argmax_loop xs i best bv < length (ys @ xs) \<and>
         (\<forall>j<length (ys @ xs). (ys @ xs) ! j \<le> (ys @ xs) ! argmax_loop xs i best bv) \<and>
         (\<forall>j<argmax_loop xs i best bv. (ys @ xs) ! j < (ys @ xs) ! argmax_loop xs i best bv)"
  using assms
proof (induction xs arbitrary: ys i best bv)
  case Nil
  then show ?case by simp
next
  case (Cons x xs)
  show ?case
  proof (cases "x > bv")
    case True
    have "argmax_loop xs (Suc i) i x < length ((ys @ [x]) @ xs) \<and>
         (\<forall>j<length ((ys @ [x]) @ xs). ((ys @ [x]) @ xs) ! j \<le> ((ys @ [x]) @ xs) ! argmax_loop xs (Suc i) i x) \<and>
         (\<forall>j<argmax_loop xs (Suc i) i x. ((ys @ [x]) @ xs) ! j < ((ys @ [x]) @ xs) ! argmax_loop xs (Suc i) i x)"
    proof (rule Cons.IH)
      show "length (ys @ [x]) = Suc i" using Cons.prems by simp
      show "i < Suc i" by simp
      show "(ys @ [x]) ! i = x" using Cons.prems by (simp add: nth_append)
      show "\<forall>j<Suc i. (ys @ [x]) ! j \<le> x"
        using Cons.prems True by (auto simp: nth_append less_Suc_eq intro: order_trans less_imp_le)
      show "\<forall>j<i. (ys @ [x]) ! j < x"
        using Cons.prems True by (auto simp: nth_append intro: le_less_trans)
    qed
    with True show ?thesis by simp
  next
    case False
    have "argmax_loop xs (Suc i) best bv < length ((ys @ [x]) @ xs) \<and>
         (\<forall>j<length ((ys @ [x]) @ xs). ((ys @ [x]) @ xs) ! j \<le> ((ys @ [x]) @ xs) ! argmax_loop xs (Suc i) best bv) \<and>
         (\<forall>j<argmax_loop xs (Suc i) best bv. ((ys @ [x]) @ xs) ! j < ((ys @ [x]) @ xs) ! argmax_loop xs (Suc i) best bv)"
    proof (rule Cons.IH)
      show "length (ys @ [x]) = Suc i" using Cons.prems by simp
      show "best < Suc i" using Cons.prems by simp
      show "(ys @ [x]) ! best = bv" using Cons.prems by (simp add: nth_append)
      show "\<forall>j<Suc i. (ys @ [x]) ! j \<le> bv"
        using Cons.prems False by (auto simp: nth_append less_Suc_eq)
      show "\<forall>j<best. (ys @ [x]) ! j < bv"
        using Cons.prems by (auto simp: nth_append)
    qed
    with False show ?thesis by simp
  qed
qed

lemma argmax_first_greatest:
  assumes "xs \<noteq> []"
  shows "argmax xs < length xs \<and> (\<forall>j<length xs. xs ! j \<le> xs ! argmax xs) \<and>
         (\<forall>j<argmax xs. xs ! j < xs ! argmax xs)"
proof -
  obtain x rest where xs: "xs = x # rest" using assms by (cases xs) auto
  have "argmax_loop rest 1 0 x < length ([x] @ rest) \<and>
         (\<forall>j<length ([x] @ rest). ([x] @ rest) ! j \<le> ([x] @ rest) ! argmax_loop rest 1 0 x) \<and>
         (\<forall>j<argmax_loop rest 1 0 x. ([x] @ rest) ! j < ([x] @ rest) ! argmax_loop rest 1 0 x)"
    by (rule argmax_loop_inv) simp_all
  then show ?thesis by (simp add: xs argmax_def)
qed

lemma argmax_Max:
  assumes "xs \<noteq> []"
  shows "xs ! argmax xs = Max (set xs)"
proof -
  have a: "argmax xs < length xs" and b: "\<forall>j<length xs. xs ! j \<le> xs ! argmax xs"
    using argmax_first_greatest [OF assms] by auto
  have "Max (set xs) = xs ! argmax xs"
  proof (rule Max_eqI)
    show "finite (set xs)" by simp
    show "y \<le> xs ! argmax xs" if "y \<in> set xs" for y
      using that b by (auto simp: in_set_conv_nth)
    show "xs ! argmax xs \<in> set xs" using a by simp
  qed
  then show ?thesis by simp
qed

text \<open>
  C8. On the model path (normalisation, feature extraction and scaling have gone through):
  if the classifier has \<^verbatim>\<open>predict_proba\<close> and the first row it returns is not empty and
  has its first greatest element at one of the classes 0..5, \<^verbatim>\<open>predict_size\<close> returns
  the label of that class as \<^verbatim>\<open>predicted_size\<close>, the probability of that class, which is
  the maximum of the row, as \<^verbatim>\<open>confidence\<close>, and the whole row as
  \<^verbatim>\<open>all_probabilities\<close>; if the classifier has \<^verbatim>\<open>predict\<close> only and returns one of the
  classes 0..5, the \<^verbatim>\<open>confidence\<close> is exactly 1.0 and \<^verbatim>\<open>all_probabilities\<close> is
  \<^verbatim>\<open>None\<close>.
\<close>

theorem model_path_result:
  assumes "normalize_measurements m 170 = Inr normalized"
    and "extract_features normalized = Inr features"
    and "scale_features est features = Inr scaled"
  shows "(model est = Some (ProbaClassifier predict_proba) \<and>
          predict_proba scaled = Inr (probabilities # others) \<and> probabilities \<noteq> [] \<and>
          size_mapping (int (argmax probabilities)) = Some label \<longrightarrow>
            snd (predict_size est m confidence_threshold) =
              Inr [''predicted_size'' \<mapsto> RStr label,
                   ''confidence'' \<mapsto> RFloat (Max (set probabilities)),
                   ''all_probabilities'' \<mapsto> RList probabilities,
                   ''measurements_used'' \<mapsto> RMeasurements normalized] \<and>
            argmax probabilities < length probabilities \<and>
            probabilities ! argmax probabilities = Max (set probabilities) \<and>
            (\<forall>j<argmax probabilities. probabilities ! j < Max (set probabilities))) \<and>
         (model est = Some (LabelClassifier predict) \<and>
          predict scaled = Inr (predicted_class # remaining) \<and>
          size_mapping predicted_class = Some label \<longrightarrow>
            snd (predict_size est m confidence_threshold) =
              Inr [''predicted_size'' \<mapsto> RStr label,
                   ''confidence'' \<mapsto> RFloat 1.0,
                   ''all_probabilities'' \<mapsto> RNone,
                   ''measurements_used'' \<mapsto> RMeasurements normalized])"
proof -
  have proba: "snd (predict_size est m confidence_threshold) =
              Inr [''predicted_size'' \<mapsto> RStr label,
                   ''confidence'' \<mapsto> RFloat (Max (set probabilities)),
                   ''all_probabilities'' \<mapsto> RList probabilities,
                   ''measurements_used'' \<mapsto> RMeasurements normalized] \<and>
            argmax probabilities < length probabilities \<and>
            probabilities ! argmax probabilities = Max (set probabilities) \<and>
            (\<forall>j<argmax probabilities. probabilities ! j < Max (set probabilities))"
    if h: "model est = Some (ProbaClassifier predict_proba)"
      "predict_proba scaled = Inr (probabilities # others)" "probabilities \<noteq> []"
      "size_mapping (int (argmax probabilities)) = Some label"
  proof -
    have mx: "probabilities ! argmax probabilities = Max (set probabilities)"
      using h(3) by (rule argmax_Max)
    have run: "run_model (ProbaClassifier predict_proba) scaled =
        Inr (int (argmax probabilities), Max (set probabilities), Some probabilities)"
      using h(2,3) by (simp add: run_model_def mx)
    have "snd (predict_size est m confidence_threshold) =
              Inr [''predicted_size'' \<mapsto> RStr label,
                   ''confidence'' \<mapsto> RFloat (Max (set probabilities)),
                   ''all_probabilities'' \<mapsto> RList probabilities,
                   ''measurements_used'' \<mapsto> RMeasurements normalized]"
      using assms h(1,4) by (simp add: predict_size_def model_prediction_def run)
    then show ?thesis
      using argmax_first_greatest [OF h(3)] mx by simp
  qed
  have label: "snd (predict_size est m confidence_threshold) =
              Inr [''predicted_size'' \<mapsto> RStr label,
                   ''confidence'' \<mapsto> RFloat 1.0,
                   ''all_probabilities'' \<mapsto> RNone,
                   ''measurements_used'' \<mapsto> RMeasurements normalized]"
    if h: "model est = Some (LabelClassifier predict)"
      "predict scaled = Inr (predicted_class # remaining)"
      "size_mapping predicted_class = Some label"
  proof -
    have run: "run_model (LabelClassifier predict) scaled = Inr (predicted_class, 1.0, None)"
      using h(2) by (simp add: run_model_def)
    show ?thesis
      using assms h(1,3) by (simp add: predict_size_def model_prediction_def run)
  qed
  show ?thesis using proba label by blast
qed

lemma normalize_empty: "normalize_measurements Map.empty 170 = Inr Map.empty"
  by (simp add: normalize_measurements_def dict_get_def py_mul_float_def)

lemma extract_empty:
  "extract_features Map.empty
     = Inr \<lparr>shape = [1, 6],
            items = [PFloat 0, PFloat 0, PFloat 0, PFloat 0, PFloat 0, PFloat 0]\<rparr>"
  by (simp add: extract_features_def feature_names_def feature_value_def dict_get_def
      py_mul_float_def np_array_def reshape_row_def common_type_def is_number_def
      to_float64_def)

theorem model_path_result_witness:
  "snd (predict_size
          \<lparr>model = Some (ProbaClassifier (\<lambda>a. Inr [[0.1, 0.2, 0.6, 0.1, 0, 0]])), scaler = None\<rparr>
          Map.empty 0.7) =
     Inr [''predicted_size'' \<mapsto> RStr ''M'',
          ''confidence'' \<mapsto> RFloat 0.6,
          ''all_probabilities'' \<mapsto> RList [0.1, 0.2, 0.6, 0.1, 0, 0],
          ''measurements_used'' \<mapsto> RMeasurements Map.empty] \<and>
   argmax [0.1, 0.2, 0.6, 0.1, 0, 0] = 2 \<and>
   Max (set [0.1, 0.2, 0.6, 0.1, 0, 0 :: real]) = 0.6 \<and>
   snd (predict_size
          \<lparr>model = Some (LabelClassifier (\<lambda>a. Inr [4])), scaler = None\<rparr>
          Map.empty 0.7) =
     Inr [''predicted_size'' \<mapsto> RStr ''XL'',
          ''confidence'' \<mapsto> RFloat 1,
          ''all_probabilities'' \<mapsto> RNone,
          ''measurements_used'' \<mapsto> RMeasurements Map.empty]"
proof -
  let ?f = "\<lparr>shape = [1, 6],
            items = [PFloat 0, PFloat 0, PFloat 0, PFloat 0, PFloat 0, PFloat 0]\<rparr>"
  let ?pp = "\<lambda>a::ndarray. (Inr [[0.1, 0.2, 0.6, 0.1, 0, 0]] :: pyexc + real list list)"
  let ?p = "\<lambda>a::ndarray. (Inr [4] :: pyexc + int list)"
  let ?e1 = "\<lparr>model = Some (ProbaClassifier ?pp), scaler = None\<rparr>"
  let ?e2 = "\<lparr>model = Some (LabelClassifier ?p), scaler = None\<rparr>"
  have am: "argmax [0.1, 0.2, 0.6, 0.1, 0, 0] = 2" unfolding argmax_def by simp
  have mx: "Max (set [0.1, 0.2, 0.6, 0.1, 0, 0 :: real]) = 0.6" by simp
  have s1: "scale_features ?e1 ?f = Inr ?f" by (simp add: scale_features_def)
  have s2: "scale_features ?e2 ?f = Inr ?f" by (simp add: scale_features_def)
  have sm: "size_mapping (int (argmax [0.1, 0.2, 0.6, 0.1, 0, 0])) = Some ''M''"
    unfolding am by (simp add: size_mapping_def)
  have sm2: "size_mapping 4 = Some ''XL''" by (simp add: size_mapping_def)
  have a: "snd (predict_size ?e1 Map.empty 0.7) =
     Inr [''predicted_size'' \<mapsto> RStr ''M'',
          ''confidence'' \<mapsto> RFloat (Max (set [0.1, 0.2, 0.6, 0.1, 0, 0])),
          ''all_probabilities'' \<mapsto> RList [0.1, 0.2, 0.6, 0.1, 0, 0],
          ''measurements_used'' \<mapsto> RMeasurements Map.empty]"
    using model_path_result [where predict_proba = ?pp
        and probabilities = "[0.1, 0.2, 0.6, 0.1, 0, 0]" and others = "[]" and label = "''M''"
        and confidence_threshold = "0.7", OF normalize_empty extract_empty s1] sm
    by simp
  have b: "snd (predict_size ?e2 Map.empty 0.7) =
     Inr [''predicted_size'' \<mapsto> RStr ''XL'',
          ''confidence'' \<mapsto> RFloat 1,
          ''all_probabilities'' \<mapsto> RNone,
          ''measurements_used'' \<mapsto> RMeasurements Map.empty]"
    using model_path_result [where predict = ?p and predicted_class = 4
        and remaining = "[]" and label = "''XL''" and confidence_threshold = "0.7",
        OF normalize_empty extract_empty s2] sm2
    by simp
  have a': "snd (predict_size ?e1 Map.empty 0.7) =
     Inr [''predicted_size'' \<mapsto> RStr ''M'',
          ''confidence'' \<mapsto> RFloat 0.6,
          ''all_probabilities'' \<mapsto> RList [0.1, 0.2, 0.6, 0.1, 0, 0],
          ''measurements_used'' \<mapsto> RMeasurements Map.empty]"
    using a by (simp only: mx)
  show ?thesis by (intro conjI) (rule a' am mx b)+
qed

subsection \<open>The fields of a result\<close>

text \<open>
  C4, as stated, fails twice. The dictionary of the rule-based path has the keys
  \<^verbatim>\<open>predicted_size\<close>, \<^verbatim>\<open>confidence\<close>, \<^verbatim>\<open>method\<close> and \<^verbatim>\<open>measurements_used\<close>;
  it has no key \<^verbatim>\<open>all_probabilities\<close>. And on the model path the confidence is the number
  the classifier returned for the predicted class, as it is: the module does not bring it
  into [0, 1], so that a \<^verbatim>\<open>predict_proba\<close> returning 1.5 gives the confidence 1.5.
\<close>

theorem result_fields_counterexample:
  "snd (predict_size \<lparr>model = None, scaler = None\<rparr> Map.empty 0.7)
     = Inr [''predicted_size'' \<mapsto> RStr ''XS'', ''confidence'' \<mapsto> RFloat 0.5,
            ''method'' \<mapsto> RStr ''rule_based'', ''measurements_used'' \<mapsto> RMeasurements Map.empty] \<and>
   [''predicted_size'' \<mapsto> RStr ''XS'', ''confidence'' \<mapsto> RFloat 0.5,
    ''method'' \<mapsto> RStr ''rule_based'', ''measurements_used'' \<mapsto> RMeasurements Map.empty]
     ''all_probabilities'' = None \<and>
   snd (predict_size
          \<lparr>model = Some (ProbaClassifier (\<lambda>a. Inr [[1.5, 0.25]])), scaler = None\<rparr>
          Map.empty 0.7)
     = Inr [''predicted_size'' \<mapsto> RStr ''XS'', ''confidence'' \<mapsto> RFloat 1.5,
            ''all_probabilities'' \<mapsto> RList [1.5, 0.25],
            ''measurements_used'' \<mapsto> RMeasurements Map.empty] \<and>
   \<not> (1.5::real) \<le> 1"
  by (simp add: predict_size_def rule_based_prediction_def dict_get_def rule_size_def
      model_prediction_def normalize_measurements_def py_mul_float_def extract_features_def
      feature_names_def feature_value_def scale_features_def run_model_def argmax_def
      size_mapping_def)

lemma rule_based_fields:
  assumes "rule_based_prediction m = Inr r"
  shows "(\<exists>s. r ''predicted_size'' = Some (RStr s) \<and> reverse_size_mapping s \<noteq> None) \<and>
      r ''confidence'' = Some (RFloat 0.5) \<and>
      r ''measurements_used'' = Some (RMeasurements m) \<and>
      r ''method'' = Some (RStr ''rule_based'') \<and> r ''all_probabilities'' = None"
proof -
  from assms obtain x where r:
    "r = [''predicted_size'' \<mapsto> RStr (rule_size x), ''confidence'' \<mapsto> RFloat 0.5,
          ''method'' \<mapsto> RStr ''rule_based'', ''measurements_used'' \<mapsto> RMeasurements m]"
    by (auto simp: rule_based_prediction_def split: option.splits)
  have lab: "reverse_size_mapping (rule_size x) \<noteq> None"
    by (simp add: rule_size_def reverse_size_mapping_def)
  have 1: "\<exists>s. r ''predicted_size'' = Some (RStr s) \<and> reverse_size_mapping s \<noteq> None"
    using lab by (simp add: r)
  have 2: "r ''confidence'' = Some (RFloat 0.5)" by (simp add: r)
  have 3: "r ''measurements_used'' = Some (RMeasurements m)" by (simp add: r)
  have 4: "r ''method'' = Some (RStr ''rule_based'')" by (simp add: r)
  have 5: "r ''all_probabilities'' = None" by (simp add: r)
  show ?thesis using 1 2 3 4 5 by blast
qed

lemma size_mapping_label:
  "size_mapping c = Some s \<Longrightarrow> reverse_size_mapping s \<noteq> None"
  by (auto simp: size_mapping_def reverse_size_mapping_def split: if_splits)

lemma run_model_confidence:
  assumes "run_model clf scaled = Inr (c, confidence, probabilities)"
    and "gives_probabilities clf"
  shows "0 \<le> confidence \<and> confidence \<le> 1"
proof (cases clf)
  case (ProbaClassifier predict_proba)
  from assms(1) obtain row others where rows: "predict_proba scaled = Inr (row # others)"
    and ne: "row \<noteq> []" and conf: "confidence = row ! argmax row"
    by (auto simp: ProbaClassifier run_model_def Let_def split: sum.splits list.splits if_splits)
  have "argmax row < length row" using argmax_first_greatest [OF ne] by simp
  then have "row ! argmax row \<in> set row" by simp
  moreover have "\<forall>p \<in> set row. 0 \<le> p \<and> p \<le> 1"
    using assms(2) rows unfolding ProbaClassifier gives_probabilities_def classifier.case
    by (metis list.set_intros(1))
  ultimately show ?thesis using conf by blast
next
  case (LabelClassifier predict)
  with assms(1) show ?thesis
    by (auto simp: run_model_def split: sum.splits list.splits)
qed

lemma model_prediction_fields:
  assumes "model_prediction est clf m confidence_threshold = Inr (logs, r)"
  shows "(\<exists>s. r ''predicted_size'' = Some (RStr s) \<and> reverse_size_mapping s \<noteq> None) \<and>
      (\<exists>c. r ''confidence'' = Some (RFloat c) \<and>
         (gives_probabilities clf \<longrightarrow> 0 \<le> c \<and> c \<le> 1)) \<and>
      (\<exists>used. r ''measurements_used'' = Some (RMeasurements used)) \<and>
      r ''method'' = None \<and>
      (r ''all_probabilities'' = Some RNone \<or> (\<exists>ps. r ''all_probabilities'' = Some (RList ps)))"
proof -
  from assms(1) obtain normalized features scaled c confidence probabilities label where
    run: "run_model clf scaled = Inr (c, confidence, probabilities)"
    and lab: "size_mapping c = Some label"
    and r: "r = [''predicted_size'' \<mapsto> RStr label,
                ''confidence'' \<mapsto> RFloat confidence,
                ''all_probabilities'' \<mapsto>
                   (case probabilities of Some ps \<Rightarrow> RList ps | None \<Rightarrow> RNone),
                ''measurements_used'' \<mapsto> RMeasurements normalized]"
    by (auto simp: model_prediction_def split: sum.splits option.splits prod.splits)
  have conf: "gives_probabilities clf \<longrightarrow> 0 \<le> confidence \<and> confidence \<le> 1"
    using run run_model_confidence by blast
  show ?thesis
    using conf size_mapping_label [OF lab] by (cases probabilities) (simp_all add: r)
qed

lemma model_path_cases:
  "model_path est m confidence_threshold \<longleftrightarrow>
     (\<exists>clf logs r. model est = Some clf \<and>
        model_prediction est clf m confidence_threshold = Inr (logs, r))"
  by (auto simp: model_path_def split: option.splits sum.splits)

lemma predict_size_model_path:
  assumes "model est = Some clf"
    and "model_prediction est clf m confidence_threshold = Inr (logs, r')"
  shows "snd (predict_size est m confidence_threshold) = Inr r'"
  using assms by (simp add: predict_size_def)

lemma predict_size_rule_path:
  assumes "\<not> model_path est m confidence_threshold"
  shows "snd (predict_size est m confidence_threshold) = rule_based_prediction m"
  using assms
  by (auto simp: predict_size_def model_path_def split: option.splits sum.splits)

text \<open>
  C4, amended. Every result dictionary returned by \<^verbatim>\<open>predict_size\<close> holds
  \<^verbatim>\<open>predicted_size\<close> (one of the six size labels), \<^verbatim>\<open>confidence\<close> (a float; it is in
  [0, 1] when the numbers returned by \<^verbatim>\<open>predict_proba\<close> are probabilities) and
  \<^verbatim>\<open>measurements_used\<close> (a measurement dictionary). When the call returns from the model
  path the dictionary also holds \<^verbatim>\<open>all_probabilities\<close> (a list of floats or \<^verbatim>\<open>None\<close>)
  and has no key \<^verbatim>\<open>method\<close>; when it returns from the rule-based path the dictionary
  holds \<^verbatim>\<open>method\<close>, equal to \<^verbatim>\<open>"rule_based"\<close>, has the confidence 0.5 and has no key
  \<^verbatim>\<open>all_probabilities\<close>.
\<close>

theorem result_fields_by_path:
  assumes "snd (predict_size est m confidence_threshold) = Inr r"
  shows "(\<exists>s. r ''predicted_size'' = Some (RStr s) \<and> reverse_size_mapping s \<noteq> None) \<and>
      (\<exists>c. r ''confidence'' = Some (RFloat c) \<and>
         ((case model est of None \<Rightarrow> True | Some clf \<Rightarrow> gives_probabilities clf) \<longrightarrow>
            0 \<le> c \<and> c \<le> 1)) \<and>
      (\<exists>used. r ''measurements_used'' = Some (RMeasurements used)) \<and>
      (model_path est m confidence_threshold \<longrightarrow>
         r ''method'' = None \<and>
         (r ''all_probabilities'' = Some RNone \<or>
          (\<exists>ps. r ''all_probabilities'' = Some (RList ps)))) \<and>
      (\<not> model_path est m confidence_threshold \<longrightarrow>
         r ''method'' = Some (RStr ''rule_based'') \<and>
         r ''all_probabilities'' = None \<and>
         r ''confidence'' = Some (RFloat 0.5))"
proof (cases "model_path est m confidence_threshold")
  case True
  then obtain clf logs r' where clf: "model est = Some clf"
    and run: "model_prediction est clf m confidence_threshold = Inr (logs, r')"
    using model_path_cases by blast
  have "r' = r"
    using predict_size_model_path [OF clf run] assms by simp
  then have "model_prediction est clf m confidence_threshold = Inr (logs, r)"
    using run by simp
  then have "(\<exists>s. r ''predicted_size'' = Some (RStr s) \<and> reverse_size_mapping s \<noteq> None) \<and>
      (\<exists>c. r ''confidence'' = Some (RFloat c) \<and>
         (gives_probabilities clf \<longrightarrow> 0 \<le> c \<and> c \<le> 1)) \<and>
      (\<exists>used. r ''measurements_used'' = Some (RMeasurements used)) \<and>
      r ''method'' = None \<and>
      (r ''all_probabilities'' = Some RNone \<or> (\<exists>ps. r ''all_probabilities'' = Some (RList ps)))"
    by (rule model_prediction_fields)
  then show ?thesis
    using True by (simp add: clf)
next
  case False
  then have "rule_based_prediction m = Inr r"
    using predict_size_rule_path assms by simp
  then have "(\<exists>s. r ''predicted_size'' = Some (RStr s) \<and> reverse_size_mapping s \<noteq> None) \<and>
      r ''confidence'' = Some (RFloat 0.5) \<and>
      r ''measurements_used'' = Some (RMeasurements m) \<and>
      r ''method'' = Some (RStr ''rule_based'') \<and> r ''all_probabilities'' = None"
    by (rule rule_based_fields)
  moreover have "\<exists>c. r ''confidence'' = Some (RFloat 0.5) \<longrightarrow>
      r ''confidence'' = Some (RFloat c) \<and>
         ((case model est of None \<Rightarrow> True | Some clf \<Rightarrow> gives_probabilities clf) \<longrightarrow>
            0 \<le> c \<and> c \<le> 1)"
    by (rule exI [of _ "0.5"]) simp
  ultimately show ?thesis
    using False by blast
qed

theorem result_fields_by_path_witness:
  "snd (predict_size
          \<lparr>model = Some (ProbaClassifier (\<lambda>a. Inr [[0.25, 0.5, 0.25]])), scaler = None\<rparr>
          Map.empty 0.7) =
     Inr [''predicted_size'' \<mapsto> RStr ''S'',
          ''confidence'' \<mapsto> RFloat 0.5,
          ''all_probabilities'' \<mapsto> RList [0.25, 0.5, 0.25],
          ''measurements_used'' \<mapsto> RMeasurements Map.empty] \<and>
   gives_probabilities (ProbaClassifier (\<lambda>a. Inr [[0.25, 0.5, 0.25]])) \<and>
   model_path
     \<lparr>model = Some (ProbaClassifier (\<lambda>a. Inr [[0.25, 0.5, 0.25]])), scaler = None\<rparr>
     Map.empty 0.7 \<and>
   reverse_size_mapping ''S'' \<noteq> None \<and> (0::real) \<le> 0.5 \<and> (0.5::real) \<le> 1 \<and>
   snd (predict_size \<lparr>model = None, scaler = None\<rparr> [''shoulder_width'' \<mapsto> PInt 52] 0.7) =
     Inr [''predicted_size'' \<mapsto> RStr ''XL'',
          ''confidence'' \<mapsto> RFloat 0.5,
          ''method'' \<mapsto> RStr ''rule_based'',
          ''measurements_used'' \<mapsto> RMeasurements [''shoulder_width'' \<mapsto> PInt 52]] \<and>
   \<not> model_path \<lparr>model = None, scaler = None\<rparr> [''shoulder_width'' \<mapsto> PInt 52] 0.7"
proof -
  let ?pp = "\<lambda>a::ndarray. (Inr [[0.25, 0.5, 0.25]] :: pyexc + real list list)"
  let ?est = "\<lparr>model = Some (ProbaClassifier ?pp), scaler = None\<rparr>"
  let ?res = "[''predicted_size'' \<mapsto> RStr ''S'',
          ''confidence'' \<mapsto> RFloat 0.5,
          ''all_probabilities'' \<mapsto> RList [0.25, 0.5, 0.25],
          ''measurements_used'' \<mapsto> RMeasurements Map.empty]"
  let ?none = "\<lparr>model = None, scaler = None\<rparr> :: estimator"
  let ?m = "[''shoulder_width'' \<mapsto> PInt 52]"
  let ?rule = "[''predicted_size'' \<mapsto> RStr ''XL'',
          ''confidence'' \<mapsto> RFloat 0.5,
          ''method'' \<mapsto> RStr ''rule_based'',
          ''measurements_used'' \<mapsto> RMeasurements ?m]"
  have h1: "snd (predict_size ?est Map.empty 0.7) = Inr ?res"
    by (simp add: predict_size_def model_prediction_def normalize_measurements_def
      py_mul_float_def dict_get_def extract_features_def feature_names_def feature_value_def
      scale_features_def run_model_def argmax_def size_mapping_def)
  have g: "gives_probabilities (ProbaClassifier ?pp)"
    by (simp add: gives_probabilities_def)
  have mp: "model_path ?est Map.empty 0.7"
    by (simp add: model_path_def model_prediction_def normalize_measurements_def
      py_mul_float_def dict_get_def extract_features_def feature_names_def feature_value_def
      scale_features_def run_model_def argmax_def size_mapping_def)
  have h0: "snd (predict_size ?none ?m 0.7) = Inr ?rule"
    by (simp add: predict_size_def rule_based_prediction_def dict_get_def rule_size_def)
  have rp: "\<not> model_path ?none ?m 0.7"
    by (simp add: model_path_def)
  have "(\<exists>s. ?res ''predicted_size'' = Some (RStr s) \<and> reverse_size_mapping s \<noteq> None) \<and>
      (\<exists>c. ?res ''confidence'' = Some (RFloat c) \<and> 0 \<le> c \<and> c \<le> 1) \<and>
      ?res ''method'' = None"
    using result_fields_by_path [OF h1] g mp by auto
  then have a: "reverse_size_mapping ''S'' \<noteq> None \<and> (0::real) \<le> 0.5 \<and> (0.5::real) \<le> 1"
    by simp
  have "?rule ''method'' = Some (RStr ''rule_based'') \<and> ?rule ''all_probabilities'' = None"
    using result_fields_by_path [OF h0] rp by blast
  then show ?thesis using h1 g mp a h0 rp by blast
qed

end
